theory Spec2Isabelle
  imports Main "HOL-Library.Word"
begin

section \<open>The texture renderer of the Cocos Creator plugin\<close>

text \<open>
  A shallow embedding of \<^verbatim>\<open>native/src/internal/zego_texture_renderer.cc\<close>:
  the class \<^verbatim>\<open>ZegoTextureRenderer\<close>, which keeps the geometry of the last video
  frame and hands every frame to a JavaScript controller object through the script
  engine (\<^verbatim>\<open>se::\<close>) of the host.

  The members of the class end in an underscore in the source (\<^verbatim>\<open>width_\<close>); such a
  name is not accepted here, so every member carries the suffix \<open>_m\<close> instead.
\<close>

subsection \<open>Values and objects of the script engine\<close>

text \<open>
  The script engine belongs to the host, not to the plugin. The renderer uses six of its
  entry points: \<^verbatim>\<open>clearException\<close>, \<^verbatim>\<open>Value::isObject\<close>, \<^verbatim>\<open>Value::toObject\<close>,
  \<^verbatim>\<open>Object::getProperty\<close>, \<^verbatim>\<open>Object::isFunction\<close> and \<^verbatim>\<open>Object::call\<close>. They are
  modelled on a heap of objects addressed by reference, so that the identity of the
  controller object is kept, and every entry into the engine is written to a trace.
\<close>

type_synonym obj_ref = nat

datatype se_value =
    SeUndefined
  | SeNull
  | SeBoolean bool
  | SeNumber int
  | SeBigInt int
  | SeString string
  | SeObject obj_ref

record se_object =
  properties :: "string \<rightharpoonup> se_value"
  isFunction :: bool

type_synonym se_heap = "obj_ref \<Rightarrow> se_object"

datatype se_event =
    EvClearException
  | EvGetProperty obj_ref string
  | EvCall obj_ref "se_value list" obj_ref

record ScriptEngine =
  heap :: se_heap
  pending_exception :: bool
  trace :: "se_event list"

text \<open>
  What lies outside the source file and is taken as a parameter: the two overloads of
  \<^verbatim>\<open>nativevalue_to_se\<close> used by the renderer (for the \<^verbatim>\<open>int64_t\<close> texture id and for
  the \<^verbatim>\<open>uint8_t *\<close> frame pointer), and the behaviour of the JavaScript function that is
  called: given the callee, the arguments and the receiver it yields the heap after the
  call and whether the function threw.
\<close>

record Bindings =
  nativevalue_to_se_int64 :: "64 word \<Rightarrow> se_value"
  nativevalue_to_se_data :: "64 word \<Rightarrow> se_value"
  script :: "obj_ref \<Rightarrow> se_value list \<Rightarrow> obj_ref \<Rightarrow> se_heap \<Rightarrow> se_heap \<times> bool"

datatype fatal = ToObjectOfNonObject

definition clearException :: "ScriptEngine \<Rightarrow> ScriptEngine" where
  "clearException rt = rt\<lparr>pending_exception := False, trace := trace rt @ [EvClearException]\<rparr>"

definition isObject :: "se_value \<Rightarrow> bool" where
  "isObject v = (case v of SeObject _ \<Rightarrow> True | _ \<Rightarrow> False)"

text \<open>\<^verbatim>\<open>Value::toObject\<close> asserts \<^verbatim>\<open>isObject()\<close>; on any other value the process stops.\<close>

definition toObject :: "se_value \<Rightarrow> fatal + obj_ref" where
  "toObject v = (case v of SeObject ob \<Rightarrow> Inr ob | _ \<Rightarrow> Inl ToObjectOfNonObject)"

text \<open>
  \<^verbatim>\<open>Object::getProperty(name, &out)\<close> returns false when the object has no such
  property; otherwise it stores the property's value in \<open>out\<close> and returns true.
\<close>

definition getProperty :: "ScriptEngine \<Rightarrow> obj_ref \<Rightarrow> string \<Rightarrow> se_value option \<times> ScriptEngine" where
  "getProperty rt ob name =
     (properties (heap rt ob) name, rt\<lparr>trace := trace rt @ [EvGetProperty ob name]\<rparr>)"

text \<open>
  \<^verbatim>\<open>Object::call(args, thisObject)\<close> runs the function and returns false when it threw.
\<close>

definition call :: "Bindings \<Rightarrow> ScriptEngine \<Rightarrow> obj_ref \<Rightarrow> se_value list \<Rightarrow> obj_ref \<Rightarrow> bool \<times> ScriptEngine" where
  "call B rt func args this =
     (let (h, threw) = script B func args this (heap rt)
      in (\<not> threw,
          rt\<lparr>heap := h, pending_exception := threw, trace := trace rt @ [EvCall func args this]\<rparr>))"

subsection \<open>The renderer\<close>

text \<open>
  Modelled from the spec: the declaration of the enumeration \<^verbatim>\<open>ZegoVideoFlipMode\<close> is
  not among the sources; the spec gives its four values as None, Horizontal, Vertical, Both.
\<close>

datatype ZegoVideoFlipMode = FlipNone | FlipHorizontal | FlipVertical | FlipBoth

text \<open>
  \<^verbatim>\<open>ZEGO::EXPRESS::ZegoVideoFrameParam\<close> is declared by the media SDK; the renderer reads
  its three members \<^verbatim>\<open>width\<close>, \<^verbatim>\<open>height\<close> and \<^verbatim>\<open>rotation\<close> and stores each in a
  \<^verbatim>\<open>uint32_t\<close>, so each is kept here as the 32-bit value that is stored.
\<close>

record ZegoVideoFrameParam =
  width :: "32 word"
  height :: "32 word"
  rotation :: "32 word"

text \<open>
  \<^verbatim>\<open>js_controller_\<close> is a \<^verbatim>\<open>std::shared_ptr<se::Value>\<close>: \<open>None\<close> is the null pointer,
  \<open>Some v\<close> a pointer to a copy of the value \<open>v\<close>.
\<close>

record ZegoTextureRenderer =
  texture_id_m :: "64 word"
  width_m :: "32 word"
  height_m :: "32 word"
  rotation_m :: "32 word"
  flip_mode_m :: ZegoVideoFlipMode
  js_controller_m :: "se_value option"

definition SetJsController :: "se_value \<Rightarrow> ZegoTextureRenderer \<Rightarrow> ZegoTextureRenderer" where
  "SetJsController controller r = r\<lparr>js_controller_m := Some controller\<rparr>"

definition TextureId :: "ZegoTextureRenderer \<Rightarrow> 64 word" where
  "TextureId r = texture_id_m r"

definition Width :: "ZegoTextureRenderer \<Rightarrow> 32 word" where
  "Width r = width_m r"

definition Height :: "ZegoTextureRenderer \<Rightarrow> 32 word" where
  "Height r = height_m r"

definition Rotation :: "ZegoTextureRenderer \<Rightarrow> 32 word" where
  "Rotation r = rotation_m r"

definition FlipMode :: "ZegoTextureRenderer \<Rightarrow> ZegoVideoFlipMode" where
  "FlipMode r = flip_mode_m r"

text \<open>
  \<^verbatim>\<open>UpdateFrameBuffer(data, data_length, param, flip_mode)\<close>. The frame is the pointer
  \<open>data\<close>, an address; \<open>data_length\<close> is a \<^verbatim>\<open>uint32_t\<close>. The result is \<open>Inl\<close> when the
  process stops in \<^verbatim>\<open>toObject\<close>, and otherwise the renderer and the engine after the call.
  Each \<^verbatim>\<open>return\<close> of the source is one \<open>Inr\<close> branch, in the order of the source.
\<close>

definition UpdateFrameBuffer ::
  "Bindings \<Rightarrow> 64 word \<Rightarrow> 32 word \<Rightarrow> ZegoVideoFrameParam \<Rightarrow> ZegoVideoFlipMode \<Rightarrow>
   ZegoTextureRenderer \<Rightarrow> ScriptEngine \<Rightarrow> fatal + (ZegoTextureRenderer \<times> ScriptEngine)" where
  "UpdateFrameBuffer B data data_length param flip_mode r rt =
     (let r1 = r\<lparr>width_m := width param, height_m := height param,
                 rotation_m := rotation param, flip_mode_m := flip_mode\<rparr>
      in case js_controller_m r1 of
           None \<Rightarrow> Inr (r1, rt)
         | Some controller \<Rightarrow>
             (let rt1 = clearException rt
              in case toObject controller of
                   Inl e \<Rightarrow> Inl e
                 | Inr this \<Rightarrow>
                     (case getProperty rt1 this ''updateRendererFrameBuffer'' of
                        (None, rt2) \<Rightarrow> Inr (r1, rt2)
                      | (Some method, rt2) \<Rightarrow>
                          if \<not> isObject method then Inr (r1, rt2)
                          else (case toObject method of
                                  Inl e \<Rightarrow> Inl e
                                | Inr func \<Rightarrow>
                                    if \<not> isFunction (heap rt2 func) then Inr (r1, rt2)
                                    else (let js_texture_id = nativevalue_to_se_int64 B (texture_id_m r1);
                                              js_data = nativevalue_to_se_data B data;
                                              args = [js_texture_id, js_data];
                                              (ok, rt3) = call B rt2 func args this
                                          in Inr (r1, rt3))))))"

subsection \<open>Construction\<close>

text \<open>
  Modelled from the spec: \<^verbatim>\<open>GetNextSequence\<close> is declared in \<^verbatim>\<open>zego_utils.h\<close>, which
  is not among the sources. The spec describes it as the next value of a process-wide
  counter that is strictly increasing, starts at a base the implementation chooses and
  never wraps. The counter is the state; the result is the value handed out and the
  counter after the call.
\<close>

definition GetNextSequence :: "int \<Rightarrow> int \<times> int" where
  "GetNextSequence seq = (seq + 1, seq + 1)"

text \<open>
  The constructor. Its body is the single assignment \<^verbatim>\<open>texture_id_ = GetNextSequence()\<close>,
  into an \<^verbatim>\<open>int64_t\<close>. The members as their initialisers in the class declaration leave
  them (the header is not among the sources) are the parameter \<open>members\<close>.
\<close>

definition ZegoTextureRenderer_new :: "ZegoTextureRenderer \<Rightarrow> int \<Rightarrow> ZegoTextureRenderer \<times> int" where
  "ZegoTextureRenderer_new members seq =
     (let (v, seq') = GetNextSequence seq
      in (members\<lparr>texture_id_m := word_of_int v\<rparr>, seq'))"

text \<open>\<open>n\<close> renderers constructed one after the other, in the order of construction.\<close>

fun construct_n :: "ZegoTextureRenderer \<Rightarrow> nat \<Rightarrow> int \<Rightarrow> ZegoTextureRenderer list \<times> int" where
  "construct_n members 0 seq = ([], seq)"
| "construct_n members (Suc n) seq =
     (let (r, seq1) = ZegoTextureRenderer_new members seq;
          (rs, seq2) = construct_n members n seq1
      in (r # rs, seq2))"

subsection \<open>Sequences of calls on one renderer\<close>

text \<open>
  The two member functions that write to the renderer, as operations, and a run of them in
  order; the run stops where the process stops. The five accessors write nothing and are
  left out.
\<close>

datatype bridge_op =
    OpSetJsController se_value
  | OpUpdateFrameBuffer "64 word" "32 word" ZegoVideoFrameParam ZegoVideoFlipMode

fun run_ops :: "Bindings \<Rightarrow> bridge_op list \<Rightarrow> ZegoTextureRenderer \<Rightarrow> ScriptEngine \<Rightarrow>
    fatal + (ZegoTextureRenderer \<times> ScriptEngine)" where
  "run_ops B [] r rt = Inr (r, rt)"
| "run_ops B (OpSetJsController controller # ops) r rt = run_ops B ops (SetJsController controller r) rt"
| "run_ops B (OpUpdateFrameBuffer data data_length param flip_mode # ops) r rt =
     (case UpdateFrameBuffer B data data_length param flip_mode r rt of
        Inl e \<Rightarrow> Inl e
      | Inr (r', rt') \<Rightarrow> run_ops B ops r' rt')"

text \<open>The calls of JavaScript functions among the events of a trace.\<close>

fun is_call :: "se_event \<Rightarrow> bool" where
  "is_call (EvCall func args this) = True"
| "is_call _ = False"

definition calls :: "ScriptEngine \<Rightarrow> se_event list" where
  "calls rt = filter is_call (trace rt)"

text \<open>The renderer after the four assignments that open \<open>UpdateFrameBuffer\<close>.\<close>

definition with_geometry :: "ZegoVideoFrameParam \<Rightarrow> ZegoVideoFlipMode \<Rightarrow> ZegoTextureRenderer \<Rightarrow> ZegoTextureRenderer" where
  "with_geometry param flip_mode r =
     r\<lparr>width_m := width param, height_m := height param,
       rotation_m := rotation param, flip_mode_m := flip_mode\<rparr>"

subsection \<open>A concrete engine\<close>

text \<open>
  A heap with a controller (object 1) whose property \<^verbatim>\<open>updateRendererFrameBuffer\<close> is the
  function object 2, and an object 3 without that property; bindings that pass the texture
  id and the frame address on as integers, and a script that returns normally and leaves
  the heap as it is; a renderer with texture id 7 and no controller.
\<close>

definition example_heap :: se_heap where
  "example_heap =
     (\<lambda>_. \<lparr>properties = Map.empty, isFunction = False\<rparr>)
       (1 := \<lparr>properties = [''updateRendererFrameBuffer'' \<mapsto> SeObject 2], isFunction = False\<rparr>,
        2 := \<lparr>properties = Map.empty, isFunction = True\<rparr>)"

definition example_engine :: ScriptEngine where
  "example_engine = \<lparr>heap = example_heap, pending_exception = False, trace = []\<rparr>"

definition example_bindings :: Bindings where
  "example_bindings =
     \<lparr>nativevalue_to_se_int64 = (\<lambda>i. SeBigInt (sint i)),
      nativevalue_to_se_data = (\<lambda>p. SeBigInt (uint p)),
      script = (\<lambda>func args this h. (h, False))\<rparr>"

definition example_renderer :: ZegoTextureRenderer where
  "example_renderer =
     \<lparr>texture_id_m = 7, width_m = 0, height_m = 0, rotation_m = 0,
      flip_mode_m = FlipNone, js_controller_m = None\<rparr>"

subsection \<open>The bytes of a frame\<close>

text \<open>
  The producer hands over a frame as the address \<open>data\<close> and the count \<open>data_length\<close>:
  the bytes passed in are the \<open>data_length\<close> bytes of the process memory that start at
  \<open>data\<close>. The memory is a function from addresses to bytes.
\<close>

type_synonym memory = "64 word \<Rightarrow> 8 word"

definition frame_bytes :: "memory \<Rightarrow> 64 word \<Rightarrow> 32 word \<Rightarrow> 8 word list" where
  "frame_bytes mem data data_length = map (\<lambda>i. mem (data + of_nat i)) [0..<unat data_length]"

text \<open>A memory that holds the four bytes \<^verbatim>\<open>EFGH\<close> at address 4096.\<close>

definition example_memory :: memory where
  "example_memory = (\<lambda>_. 0)(4096 := 69, 4097 := 70, 4098 := 71, 4099 := 72)"

section \<open>Properties\<close>

lemma SetJsController_fields:
  "texture_id_m (SetJsController c r) = texture_id_m r"
  "width_m (SetJsController c r) = width_m r"
  "height_m (SetJsController c r) = height_m r"
  "rotation_m (SetJsController c r) = rotation_m r"
  "flip_mode_m (SetJsController c r) = flip_mode_m r"
  "js_controller_m (SetJsController c r) = Some c"
  by (simp_all add: SetJsController_def)

subsection \<open>What a frame delivery returns\<close>

lemma with_geometry_fields:
  "texture_id_m (with_geometry p f r) = texture_id_m r"
  "width_m (with_geometry p f r) = width p"
  "height_m (with_geometry p f r) = height p"
  "rotation_m (with_geometry p f r) = rotation p"
  "flip_mode_m (with_geometry p f r) = f"
  "js_controller_m (with_geometry p f r) = js_controller_m r"
  by (simp_all add: with_geometry_def)

lemma fold_SetJsController_fields:
  "texture_id_m (fold SetJsController cs r) = texture_id_m r"
  "width_m (fold SetJsController cs r) = width_m r"
  "height_m (fold SetJsController cs r) = height_m r"
  "rotation_m (fold SetJsController cs r) = rotation_m r"
  "flip_mode_m (fold SetJsController cs r) = flip_mode_m r"
  by (induction cs arbitrary: r; simp add: SetJsController_fields)+

lemma UpdateFrameBuffer_returns_geometry:
  "UpdateFrameBuffer B data len param flip_mode r rt = Inr (r', rt') \<Longrightarrow>
   r' = with_geometry param flip_mode r"
  by (auto simp: UpdateFrameBuffer_def with_geometry_def Let_def
      split: option.splits sum.splits prod.splits if_splits)

lemma UpdateFrameBuffer_object_returns:
  "js_controller_m r = Some (SeObject c) \<Longrightarrow>
   \<exists>rt'. UpdateFrameBuffer B data len param flip_mode r rt = Inr (with_geometry param flip_mode r, rt')"
  by (auto simp: UpdateFrameBuffer_def with_geometry_def Let_def toObject_def isObject_def
      split: option.splits sum.splits prod.splits se_value.splits)

lemma UpdateFrameBuffer_bound_trace:
  "js_controller_m r = Some c \<Longrightarrow>
   UpdateFrameBuffer B data len param flip_mode r rt = Inr (r', rt') \<Longrightarrow>
   take (Suc (length (trace rt))) (trace rt') = trace rt @ [EvClearException]"
  by (auto simp: UpdateFrameBuffer_def Let_def clearException_def getProperty_def call_def
      split: option.splits sum.splits prod.splits if_splits)

text \<open>
  C4: on a renderer with no controller, \<open>UpdateFrameBuffer\<close> returns normally, the engine
  is exactly as before (no entry into it is made, so its trace has no new event), and the
  four geometry members hold the values of the frame.
\<close>

theorem C4_unbound_no_call:
  assumes "js_controller_m r = None"
  shows "\<exists>r'. UpdateFrameBuffer B data len param flip_mode r rt = Inr (r', rt) \<and>
           r' = with_geometry param flip_mode r \<and>
           Width r' = width param \<and> Height r' = height param \<and>
           Rotation r' = rotation param \<and> FlipMode r' = flip_mode \<and>
           TextureId r' = TextureId r \<and> js_controller_m r' = None"
  using assms
  by (simp add: UpdateFrameBuffer_def with_geometry_def Width_def Height_def Rotation_def
      FlipMode_def TextureId_def)

theorem C4_unbound_no_call_witness:
  "js_controller_m example_renderer = None \<and>
   (\<exists>r'. UpdateFrameBuffer example_bindings 4096 4 \<lparr>width = 320, height = 240, rotation = 0\<rparr>
            FlipNone example_renderer example_engine = Inr (r', example_engine) \<and>
         Width r' = 320 \<and> Height r' = 240 \<and> Rotation r' = 0 \<and> FlipMode r' = FlipNone)"
proof -
  have h: "js_controller_m example_renderer = None"
    by (simp add: example_renderer_def)
  show ?thesis
    using h C4_unbound_no_call [OF h, of example_bindings 4096 4
        "\<lparr>width = 320, height = 240, rotation = 0\<rparr>" FlipNone example_engine]
    by simp
qed

text \<open>
  C2: whenever \<open>UpdateFrameBuffer\<close> with width 640, height 480, rotation 90 and the
  horizontal flip mode returns, the four accessors give exactly these values, also after any
  number of later calls of \<open>SetJsController\<close> (the only other member function that writes),
  and whatever the controller member was; and the call does return when no controller is
  set or when the controller is an object.
\<close>

theorem C2_geometry_after_update:
  "(UpdateFrameBuffer B data len \<lparr>width = 640, height = 480, rotation = 90\<rparr> FlipHorizontal r rt
      = Inr (r', rt') \<longrightarrow>
      Width (fold SetJsController cs r') = 640 \<and> Height (fold SetJsController cs r') = 480 \<and>
      Rotation (fold SetJsController cs r') = 90 \<and>
      FlipMode (fold SetJsController cs r') = FlipHorizontal)
   \<and> (js_controller_m r = None \<or> (\<exists>c. js_controller_m r = Some (SeObject c)) \<longrightarrow>
      (\<exists>r1 rt1. UpdateFrameBuffer B data len \<lparr>width = 640, height = 480, rotation = 90\<rparr>
                   FlipHorizontal r rt = Inr (r1, rt1)))"
proof (intro conjI impI)
  assume "js_controller_m r = None \<or> (\<exists>c. js_controller_m r = Some (SeObject c))"
  then show "\<exists>r1 rt1. UpdateFrameBuffer B data len \<lparr>width = 640, height = 480, rotation = 90\<rparr>
                   FlipHorizontal r rt = Inr (r1, rt1)"
  proof
    assume "js_controller_m r = None"
    then show ?thesis by (simp add: UpdateFrameBuffer_def)
  next
    assume "\<exists>c. js_controller_m r = Some (SeObject c)"
    then show ?thesis using UpdateFrameBuffer_object_returns by blast
  qed
qed (auto dest!: UpdateFrameBuffer_returns_geometry
      simp: Width_def Height_def Rotation_def FlipMode_def fold_SetJsController_fields
        with_geometry_fields)

theorem C2_geometry_after_update_witness:
  "UpdateFrameBuffer example_bindings 4096 4 \<lparr>width = 640, height = 480, rotation = 90\<rparr>
     FlipHorizontal (SetJsController (SeObject 3) example_renderer) example_engine
   = Inr (with_geometry \<lparr>width = 640, height = 480, rotation = 90\<rparr> FlipHorizontal
            (SetJsController (SeObject 3) example_renderer),
          example_engine\<lparr>trace := [EvClearException, EvGetProperty 3 ''updateRendererFrameBuffer'']\<rparr>)
   \<and> Width (fold SetJsController [SeObject 1, SeNull]
         (with_geometry \<lparr>width = 640, height = 480, rotation = 90\<rparr> FlipHorizontal
            (SetJsController (SeObject 3) example_renderer))) = 640
   \<and> Height (fold SetJsController [SeObject 1, SeNull]
         (with_geometry \<lparr>width = 640, height = 480, rotation = 90\<rparr> FlipHorizontal
            (SetJsController (SeObject 3) example_renderer))) = 480
   \<and> Rotation (fold SetJsController [SeObject 1, SeNull]
         (with_geometry \<lparr>width = 640, height = 480, rotation = 90\<rparr> FlipHorizontal
            (SetJsController (SeObject 3) example_renderer))) = 90
   \<and> FlipMode (fold SetJsController [SeObject 1, SeNull]
         (with_geometry \<lparr>width = 640, height = 480, rotation = 90\<rparr> FlipHorizontal
            (SetJsController (SeObject 3) example_renderer))) = FlipHorizontal"
proof -
  have h: "UpdateFrameBuffer example_bindings 4096 4 \<lparr>width = 640, height = 480, rotation = 90\<rparr>
     FlipHorizontal (SetJsController (SeObject 3) example_renderer) example_engine
   = Inr (with_geometry \<lparr>width = 640, height = 480, rotation = 90\<rparr> FlipHorizontal
            (SetJsController (SeObject 3) example_renderer),
          example_engine\<lparr>trace := [EvClearException, EvGetProperty 3 ''updateRendererFrameBuffer'']\<rparr>)"
    by (simp add: UpdateFrameBuffer_def with_geometry_def SetJsController_def example_renderer_def
        example_engine_def example_heap_def clearException_def toObject_def getProperty_def)
  have b: "js_controller_m (SetJsController (SeObject 3) example_renderer) = Some (SeObject 3)"
    by (simp add: SetJsController_def)
  from h b C2_geometry_after_update [where B = example_bindings and data = 4096 and len = 4
      and r = "SetJsController (SeObject 3) example_renderer" and rt = example_engine
      and r' = "with_geometry \<lparr>width = 640, height = 480, rotation = 90\<rparr> FlipHorizontal
            (SetJsController (SeObject 3) example_renderer)"
      and rt' = "example_engine\<lparr>trace := [EvClearException, EvGetProperty 3 ''updateRendererFrameBuffer'']\<rparr>"
      and cs = "[SeObject 1, SeNull]"]
  show ?thesis by simp
qed

text \<open>
  C5: when the controller is an object that has no property \<^verbatim>\<open>updateRendererFrameBuffer\<close>,
  or has one whose value is not an object or is an object that is not a function,
  \<open>UpdateFrameBuffer\<close> returns normally with the geometry of the frame, no JavaScript function
  is called and the heap is untouched: the engine sees \<^verbatim>\<open>clearException\<close> and the property
  lookup only.
\<close>

theorem C5_missing_method_skips_call:
  assumes "js_controller_m r = Some (SeObject c)"
    and "properties (heap rt c) ''updateRendererFrameBuffer'' = None \<or>
         (\<exists>m. properties (heap rt c) ''updateRendererFrameBuffer'' = Some m \<and>
              (\<not> isObject m \<or> (\<exists>f. m = SeObject f \<and> \<not> isFunction (heap rt f))))"
  shows "\<exists>r' rt'. UpdateFrameBuffer B data len param flip_mode r rt = Inr (r', rt') \<and>
           r' = with_geometry param flip_mode r \<and>
           Width r' = width param \<and> Height r' = height param \<and>
           Rotation r' = rotation param \<and> FlipMode r' = flip_mode \<and>
           calls rt' = calls rt \<and> heap rt' = heap rt \<and>
           trace rt' = trace rt @ [EvClearException, EvGetProperty c ''updateRendererFrameBuffer'']"
  using assms
  by (auto simp: UpdateFrameBuffer_def with_geometry_def Let_def Width_def Height_def
      Rotation_def FlipMode_def clearException_def getProperty_def toObject_def isObject_def
      calls_def)


theorem C5_missing_method_skips_call_witness:
  "js_controller_m (SetJsController (SeObject 3) example_renderer) = Some (SeObject 3) \<and>
   properties (heap example_engine 3) ''updateRendererFrameBuffer'' = None \<and>
   (\<exists>r' rt'. UpdateFrameBuffer example_bindings 4096 4 \<lparr>width = 320, height = 240, rotation = 0\<rparr>
       FlipBoth (SetJsController (SeObject 3) example_renderer) example_engine = Inr (r', rt') \<and>
     Width r' = 320 \<and> Height r' = 240 \<and> Rotation r' = 0 \<and> FlipMode r' = FlipBoth \<and>
     calls rt' = [] \<and>
     trace rt' = [EvClearException, EvGetProperty 3 ''updateRendererFrameBuffer''])"
proof -
  have h1: "js_controller_m (SetJsController (SeObject 3) example_renderer) = Some (SeObject 3)"
    by (simp add: SetJsController_def)
  have h2: "properties (heap example_engine 3) ''updateRendererFrameBuffer'' = None"
    by (simp add: example_engine_def example_heap_def)
  have c0: "calls example_engine = []" "trace example_engine = []"
    by (simp_all add: calls_def example_engine_def)
  from C5_missing_method_skips_call [OF h1 disjI1, OF h2, of example_bindings 4096 4
      "\<lparr>width = 320, height = 240, rotation = 0\<rparr>" FlipBoth]
  show ?thesis using h1 h2 c0 by auto
qed

text \<open>
  C1, as amended: let the controller \<open>c\<close> set by \<open>SetJsController\<close> be an object whose
  property \<^verbatim>\<open>updateRendererFrameBuffer\<close> is a function object \<open>f\<close>. Then one
  \<open>UpdateFrameBuffer\<close> returns normally and, by the time it returns, the engine has seen
  exactly one call more than before: the call of \<open>f\<close> with receiver \<open>c\<close> and the two
  arguments, in this order, the conversion of the renderer's texture id and the conversion of
  the address \<open>data\<close> alone, whatever \<open>data_length\<close> is: the buffer argument stands for
  where the frame starts, not for its bytes. The heap is the one the function left. The
  renderer that is returned does not depend on what the function did or returned.
\<close>

theorem C1_bound_single_call:
  assumes "properties (heap rt c) ''updateRendererFrameBuffer'' = Some (SeObject f)"
    and "isFunction (heap rt f)"
  shows "\<exists>rt'. UpdateFrameBuffer B data len param flip_mode (SetJsController (SeObject c) r) rt
           = Inr (with_geometry param flip_mode (SetJsController (SeObject c) r), rt')
       \<and> trace rt' = trace rt @
           [EvClearException, EvGetProperty c ''updateRendererFrameBuffer'',
            EvCall f [nativevalue_to_se_int64 B (TextureId (SetJsController (SeObject c) r)),
                      nativevalue_to_se_data B data] c]
       \<and> calls rt' = calls rt @
           [EvCall f [nativevalue_to_se_int64 B (TextureId (SetJsController (SeObject c) r)),
                      nativevalue_to_se_data B data] c]
       \<and> heap rt' = fst (script B f [nativevalue_to_se_int64 B (TextureId (SetJsController (SeObject c) r)),
                      nativevalue_to_se_data B data] c (heap rt))"
  using assms
  by (simp add: UpdateFrameBuffer_def with_geometry_def SetJsController_def Let_def
      clearException_def getProperty_def call_def toObject_def isObject_def calls_def TextureId_def
      split: prod.splits)

theorem C1_bound_single_call_witness:
  "properties (heap example_engine 1) ''updateRendererFrameBuffer'' = Some (SeObject 2) \<and>
   isFunction (heap example_engine 2) \<and>
   (\<exists>rt'. UpdateFrameBuffer example_bindings 4096 4 \<lparr>width = 320, height = 240, rotation = 0\<rparr>
       FlipNone (SetJsController (SeObject 1) example_renderer) example_engine
        = Inr (with_geometry \<lparr>width = 320, height = 240, rotation = 0\<rparr> FlipNone
                 (SetJsController (SeObject 1) example_renderer), rt') \<and>
     calls rt' = [EvCall 2 [SeBigInt 7, SeBigInt 4096] 1])"
proof -
  have h1: "properties (heap example_engine 1) ''updateRendererFrameBuffer'' = Some (SeObject 2)"
    by (simp add: example_engine_def example_heap_def)
  have h2: "isFunction (heap example_engine 2)"
    by (simp add: example_engine_def example_heap_def)
  have c0: "calls example_engine = []"
    by (simp add: calls_def example_engine_def)
  have a: "nativevalue_to_se_int64 example_bindings
             (TextureId (SetJsController (SeObject 1) example_renderer)) = SeBigInt 7"
    by (simp add: example_bindings_def TextureId_def SetJsController_def example_renderer_def)
  have b: "nativevalue_to_se_data example_bindings 4096 = SeBigInt 4096"
    by (simp add: example_bindings_def)
  from C1_bound_single_call [OF h1 h2, of example_bindings 4096 4
      "\<lparr>width = 320, height = 240, rotation = 0\<rparr>" FlipNone example_renderer]
  show ?thesis using h1 h2 c0 a b by auto
qed

text \<open>
  The buffer argument does not determine the bytes that were passed in. Two deliveries at
  the address 4096, one of the four bytes \<^verbatim>\<open>EFGH\<close> and one of the two bytes \<^verbatim>\<open>EF\<close>,
  make the same call with the same buffer argument.
\<close>

theorem C1_buffer_value_counterexample:
  "UpdateFrameBuffer example_bindings 4096 4 \<lparr>width = 320, height = 240, rotation = 0\<rparr> FlipNone
     (SetJsController (SeObject 1) example_renderer) example_engine
   = Inr (with_geometry \<lparr>width = 320, height = 240, rotation = 0\<rparr> FlipNone
            (SetJsController (SeObject 1) example_renderer),
          example_engine\<lparr>trace := [EvClearException, EvGetProperty 1 ''updateRendererFrameBuffer'',
                                     EvCall 2 [SeBigInt 7, SeBigInt 4096] 1]\<rparr>)
   \<and> UpdateFrameBuffer example_bindings 4096 2 \<lparr>width = 320, height = 240, rotation = 0\<rparr> FlipNone
     (SetJsController (SeObject 1) example_renderer) example_engine
   = Inr (with_geometry \<lparr>width = 320, height = 240, rotation = 0\<rparr> FlipNone
            (SetJsController (SeObject 1) example_renderer),
          example_engine\<lparr>trace := [EvClearException, EvGetProperty 1 ''updateRendererFrameBuffer'',
                                     EvCall 2 [SeBigInt 7, SeBigInt 4096] 1]\<rparr>)
   \<and> frame_bytes example_memory 4096 4 = [69, 70, 71, 72]
   \<and> frame_bytes example_memory 4096 2 = [69, 70]
   \<and> frame_bytes example_memory 4096 4 \<noteq> frame_bytes example_memory 4096 2"
proof -
  have u: "UpdateFrameBuffer example_bindings 4096 len \<lparr>width = 320, height = 240, rotation = 0\<rparr> FlipNone
     (SetJsController (SeObject 1) example_renderer) example_engine
   = Inr (with_geometry \<lparr>width = 320, height = 240, rotation = 0\<rparr> FlipNone
            (SetJsController (SeObject 1) example_renderer),
          example_engine\<lparr>trace := [EvClearException, EvGetProperty 1 ''updateRendererFrameBuffer'',
                                     EvCall 2 [SeBigInt 7, SeBigInt 4096] 1]\<rparr>)" for len
    by (simp add: UpdateFrameBuffer_def with_geometry_def SetJsController_def example_renderer_def
        example_engine_def example_heap_def example_bindings_def clearException_def toObject_def
        isObject_def getProperty_def call_def)
  have b4: "frame_bytes example_memory 4096 4 = [69, 70, 71, 72]"
    by (simp add: frame_bytes_def example_memory_def upt_rec)
  have b2: "frame_bytes example_memory 4096 2 = [69, 70]"
    by (simp add: frame_bytes_def example_memory_def upt_rec)
  show ?thesis using u b4 b2 by simp
qed

subsection \<open>Binding is permanent\<close>

lemma run_ops_keeps_bound:
  "js_controller_m r \<noteq> None \<Longrightarrow> run_ops B ops r rt = Inr (r', rt') \<Longrightarrow> js_controller_m r' \<noteq> None"
proof (induction ops arbitrary: r rt)
  case Nil
  then show ?case by simp
next
  case (Cons op ops)
  show ?case
  proof (cases op)
    case (OpSetJsController c)
    with Cons.prems have "run_ops B ops (SetJsController c r) rt = Inr (r', rt')" by simp
    moreover have "js_controller_m (SetJsController c r) \<noteq> None" by (simp add: SetJsController_def)
    ultimately show ?thesis by (rule Cons.IH[rotated])
  next
    case (OpUpdateFrameBuffer d l p f)
    with Cons.prems obtain r1 rt1 where
      u: "UpdateFrameBuffer B d l p f r rt = Inr (r1, rt1)" and
      rest: "run_ops B ops r1 rt1 = Inr (r', rt')"
      by (auto split: sum.splits)
    from u have "r1 = with_geometry p f r" by (rule UpdateFrameBuffer_returns_geometry)
    with Cons.prems(1) have "js_controller_m r1 \<noteq> None" by (simp add: with_geometry_fields)
    then show ?thesis using rest by (rule Cons.IH)
  qed
qed

text \<open>
  C9: \<open>SetJsController\<close> always leaves a non-null controller pointer. From then on, after any
  run of \<open>SetJsController\<close> and \<open>UpdateFrameBuffer\<close> calls that the process survives, the
  pointer is still non-null, and a further \<open>UpdateFrameBuffer\<close> goes through the branch
  guarded by the pointer: its outcome is never the one of the branch without a controller
  (geometry written, engine untouched) and, when it returns, the engine has seen
  \<^verbatim>\<open>clearException\<close> as its next event and the pointer is non-null still.
\<close>

theorem C9_bound_forever:
  assumes "run_ops B ops (SetJsController c r) rt = Inr (r', rt')"
  shows "js_controller_m (SetJsController c r) = Some c \<and>
         js_controller_m r' \<noteq> None \<and>
         UpdateFrameBuffer B data len param flip_mode r' rt' \<noteq> Inr (with_geometry param flip_mode r', rt') \<and>
         (\<forall>r2 rt2. UpdateFrameBuffer B data len param flip_mode r' rt' = Inr (r2, rt2) \<longrightarrow>
            js_controller_m r2 \<noteq> None \<and>
            take (Suc (length (trace rt'))) (trace rt2) = trace rt' @ [EvClearException])"
proof -
  have b0: "js_controller_m (SetJsController c r) \<noteq> None" by (simp add: SetJsController_def)
  from b0 assms have b: "js_controller_m r' \<noteq> None" by (rule run_ops_keeps_bound)
  then obtain c' where c': "js_controller_m r' = Some c'" by blast
  have tr: "take (Suc (length (trace rt'))) (trace rt2) = trace rt' @ [EvClearException]"
    if "UpdateFrameBuffer B data len param flip_mode r' rt' = Inr (r2, rt2)" for r2 rt2
    using c' that by (rule UpdateFrameBuffer_bound_trace)
  have keep: "js_controller_m r2 \<noteq> None"
    if "UpdateFrameBuffer B data len param flip_mode r' rt' = Inr (r2, rt2)" for r2 rt2
    using UpdateFrameBuffer_returns_geometry[OF that] b by (simp add: with_geometry_fields)
  have ne: "UpdateFrameBuffer B data len param flip_mode r' rt' \<noteq> Inr (with_geometry param flip_mode r', rt')"
  proof
    assume "UpdateFrameBuffer B data len param flip_mode r' rt' = Inr (with_geometry param flip_mode r', rt')"
    from tr[OF this] show False by simp
  qed
  show ?thesis using b ne tr keep by (simp add: SetJsController_def)
qed

theorem C9_bound_forever_witness:
  "\<exists>r1 rt1.
     run_ops example_bindings
       [OpUpdateFrameBuffer 4096 4 \<lparr>width = 320, height = 240, rotation = 0\<rparr> FlipNone,
        OpSetJsController SeNull]
       (SetJsController (SeObject 1) example_renderer) example_engine = Inr (r1, rt1) \<and>
     js_controller_m r1 \<noteq> None \<and>
     UpdateFrameBuffer example_bindings 8192 4 \<lparr>width = 320, height = 240, rotation = 0\<rparr> FlipNone r1 rt1
       \<noteq> Inr (with_geometry \<lparr>width = 320, height = 240, rotation = 0\<rparr> FlipNone r1, rt1)"
proof -
  let ?p = "\<lparr>width = 320, height = 240, rotation = 0\<rparr>"
  let ?r1 = "SetJsController SeNull (with_geometry ?p FlipNone (SetJsController (SeObject 1) example_renderer))"
  let ?rt1 = "example_engine\<lparr>trace := [EvClearException, EvGetProperty 1 ''updateRendererFrameBuffer'',
                 EvCall 2 [SeBigInt 7, SeBigInt 4096] 1]\<rparr>"
  have h: "run_ops example_bindings [OpUpdateFrameBuffer 4096 4 ?p FlipNone, OpSetJsController SeNull]
       (SetJsController (SeObject 1) example_renderer) example_engine = Inr (?r1, ?rt1)"
    by (simp add: UpdateFrameBuffer_def with_geometry_def SetJsController_def example_renderer_def
        example_engine_def example_heap_def example_bindings_def clearException_def toObject_def
        isObject_def getProperty_def call_def)
  from C9_bound_forever [OF h, of 8192 4 ?p FlipNone]
  have "js_controller_m ?r1 \<noteq> None \<and>
        UpdateFrameBuffer example_bindings 8192 4 ?p FlipNone ?r1 ?rt1
          \<noteq> Inr (with_geometry ?p FlipNone ?r1, ?rt1)"
    by simp
  with h show ?thesis by blast
qed

subsection \<open>Texture ids\<close>

lemma construct_n_ids:
  "length (fst (construct_n m n seq)) = n \<and> snd (construct_n m n seq) = seq + int n \<and>
   (\<forall>i<n. texture_id_m (fst (construct_n m n seq) ! i) = word_of_int (seq + 1 + int i))"
proof (induction n arbitrary: seq)
  case 0
  then show ?case by simp
next
  case (Suc n)
  obtain rs s2 where c: "construct_n m n (seq + 1) = (rs, s2)" by (cases "construct_n m n (seq + 1)")
  from Suc.IH[of "seq + 1"] c have
    l: "length rs = n" and s: "s2 = seq + 1 + int n" and
    ids: "\<forall>i<n. texture_id_m (rs ! i) = word_of_int (seq + 1 + 1 + int i)" by simp_all
  have e: "construct_n m (Suc n) seq = (m\<lparr>texture_id_m := word_of_int (seq + 1)\<rparr> # rs, s2)"
    by (simp add: ZegoTextureRenderer_new_def GetNextSequence_def c)
  have "texture_id_m ((m\<lparr>texture_id_m := word_of_int (seq + 1)\<rparr> # rs) ! i) = word_of_int (seq + 1 + int i)"
    if "i < Suc n" for i
  proof (cases i)
    case 0
    then show ?thesis by (simp del: of_int_add)
  next
    case (Suc k)
    with that have "k < n" by simp
    with ids have "texture_id_m (rs ! k) = word_of_int (seq + 1 + 1 + int k)" by simp
    then show ?thesis using Suc by (simp add: add.assoc add.left_commute del: of_int_add)
  qed
  then show ?case using l s unfolding e by (simp del: of_int_add)
qed

lemma sint_id_in_range:
  "- (2 ^ 63) \<le> x \<Longrightarrow> x < 2 ^ 63 \<Longrightarrow> sint (word_of_int x :: 64 word) = x"
  by (simp add: signed_of_int signed_take_bit_int_eq_self)

text \<open>
  C3: \<open>n\<close> renderers constructed in sequence, in a run in which the counter stays within
  \<^verbatim>\<open>int64_t\<close> (it never wraps): their texture ids, read as signed 64-bit values, strictly
  increase in the order of construction and are pairwise distinct; the counter has advanced
  by \<open>n\<close>. One construction writes the texture id, advances the counter by one and does
  nothing else; \<open>SetJsController\<close> and \<open>UpdateFrameBuffer\<close> never change the texture id.
\<close>

theorem C3_ids_increasing:
  assumes "- (2 ^ 63) \<le> seq + 1" and "seq + int n < 2 ^ 63"
  shows "length (fst (construct_n m n seq)) = n \<and>
         sorted_wrt (\<lambda>a b. sint (TextureId a) < sint (TextureId b)) (fst (construct_n m n seq)) \<and>
         distinct (map TextureId (fst (construct_n m n seq))) \<and>
         snd (construct_n m n seq) = seq + int n \<and>
         ZegoTextureRenderer_new m seq = (m\<lparr>texture_id_m := word_of_int (seq + 1)\<rparr>, seq + 1) \<and>
         TextureId (SetJsController c r) = TextureId r \<and>
         (UpdateFrameBuffer B data len param flip_mode r rt = Inr (r', rt') \<longrightarrow>
            TextureId r' = TextureId r)"
proof -
  let ?rs = "fst (construct_n m n seq)"
  from construct_n_ids[of m n seq] have
    l: "length ?rs = n" and s: "snd (construct_n m n seq) = seq + int n" and
    ids: "\<And>i. i < n \<Longrightarrow> texture_id_m (?rs ! i) = word_of_int (seq + 1 + int i)" by simp_all
  have v: "sint (TextureId (?rs ! i)) = seq + 1 + int i" if "i < n" for i
  proof -
    from that assms have "- (2 ^ 63) \<le> seq + 1 + int i" "seq + 1 + int i < 2 ^ 63" by simp_all
    then show ?thesis using ids[OF that] by (simp add: TextureId_def sint_id_in_range del: of_int_add)
  qed
  have inc: "sorted_wrt (\<lambda>a b. sint (TextureId a) < sint (TextureId b)) ?rs"
    unfolding sorted_wrt_iff_nth_less
  proof (intro allI impI)
    fix i j assume "i < j" "j < length ?rs"
    with l have "i < n" "j < n" by simp_all
    with v \<open>i < j\<close> show "sint (TextureId (?rs ! i)) < sint (TextureId (?rs ! j))" by simp
  qed
  have dis: "distinct (map TextureId ?rs)"
    unfolding distinct_conv_nth
  proof (intro allI impI)
    fix i j assume a: "i < length (map TextureId ?rs)" "j < length (map TextureId ?rs)" "i \<noteq> j"
    with l have b: "i < n" "j < n" by simp_all
    with v a(3) have "sint (TextureId (?rs ! i)) \<noteq> sint (TextureId (?rs ! j))" by simp
    then have "TextureId (?rs ! i) \<noteq> TextureId (?rs ! j)" by auto
    then show "map TextureId ?rs ! i \<noteq> map TextureId ?rs ! j" using b l by simp
  qed
  have new: "ZegoTextureRenderer_new m seq = (m\<lparr>texture_id_m := word_of_int (seq + 1)\<rparr>, seq + 1)"
    by (simp add: ZegoTextureRenderer_new_def GetNextSequence_def)
  have keep1: "TextureId (SetJsController c r) = TextureId r"
    by (simp add: TextureId_def SetJsController_fields)
  have keep2: "TextureId r' = TextureId r"
    if "UpdateFrameBuffer B data len param flip_mode r rt = Inr (r', rt')"
    using UpdateFrameBuffer_returns_geometry[OF that] by (simp add: TextureId_def with_geometry_fields)
  show ?thesis using l s inc dis new keep1 keep2 by blast
qed

theorem C3_ids_increasing_witness:
  "- (2 ^ 63) \<le> (0::int) + 1 \<and> (0::int) + int 3 < 2 ^ 63 \<and>
   length (fst (construct_n example_renderer 3 0)) = 3 \<and>
   sorted_wrt (\<lambda>a b. sint (TextureId a) < sint (TextureId b)) (fst (construct_n example_renderer 3 0)) \<and>
   distinct (map TextureId (fst (construct_n example_renderer 3 0))) \<and>
   snd (construct_n example_renderer 3 0) = 3 \<and>
   map TextureId (fst (construct_n example_renderer 3 0)) = [1, 2, 3]"
proof -
  have h1: "- (2 ^ 63) \<le> (0::int) + 1" by simp
  have h2: "(0::int) + int 3 < 2 ^ 63" by simp
  have ids: "map TextureId (fst (construct_n example_renderer 3 0)) = [1, 2, 3]"
    by (simp add: eval_nat_numeral ZegoTextureRenderer_new_def GetNextSequence_def TextureId_def)
  from C3_ids_increasing [OF h1 h2, of example_renderer]
  show ?thesis using h1 h2 ids by simp
qed

subsection \<open>What is not read and what is not written\<close>

text \<open>
  C8: two calls of \<open>UpdateFrameBuffer\<close> that differ only in \<open>data_length\<close> give the same
  renderer, the same engine state and the same trace, hence the same arguments to the
  JavaScript call: the length is never read.
\<close>

theorem C8_data_length_ignored:
  "UpdateFrameBuffer B data len1 param flip_mode r rt =
   UpdateFrameBuffer B data len2 param flip_mode r rt"
  by (simp add: UpdateFrameBuffer_def)

text \<open>
  C10: \<open>SetJsController\<close> changes the controller reference only: the texture id and the four
  geometry members, and so the values of the five accessors, are what they were before.
\<close>

theorem C10_SetJsController_frame:
  "TextureId (SetJsController c r) = TextureId r \<and>
   Width (SetJsController c r) = Width r \<and>
   Height (SetJsController c r) = Height r \<and>
   Rotation (SetJsController c r) = Rotation r \<and>
   FlipMode (SetJsController c r) = FlipMode r \<and>
   SetJsController c r = r\<lparr>js_controller_m := Some c\<rparr>"
  by (simp add: SetJsController_def TextureId_def Width_def Height_def Rotation_def FlipMode_def)

end
